theory Spec2Isabelle
  imports Complex_Main "HOL-Library.Word"
begin

section \<open>The segmentation tree of \<^verbatim>\<open>morph_node.cc\<close>\<close>

text \<open>
  A node of the tree store: \<^verbatim>\<open>MorphNode\<close> holds a count and the keys of its two
  children, the empty string standing for "no child". Counts are \<^verbatim>\<open>size_t\<close>; they are
  modelled as unbounded naturals, the counters of the tree as integers.
\<close>

record MorphNode =
  count :: nat
  left_child :: string
  right_child :: string

text \<open>\<^verbatim>\<open>MorphNode::MorphNode(size_t count) : count{count}, left_child{}, right_child{}\<close>\<close>

definition new_node :: "nat \<Rightarrow> MorphNode" where
  "new_node c = \<lparr>count = c, left_child = [], right_child = []\<rparr>"

text \<open>
  \<^verbatim>\<open>has_children\<close>: the header of the string-keyed node is not part of the sources at hand;
  the declaration that is (\<^verbatim>\<open>left_child_ != nullptr && right_child_ != nullptr\<close>) asks for
  both children, which for string keys reads as both keys being non-empty.
\<close>

definition has_children :: "MorphNode \<Rightarrow> bool" where
  "has_children n \<longleftrightarrow> left_child n \<noteq> [] \<and> right_child n \<noteq> []"

type_synonym store = "string \<rightharpoonup> MorphNode"

record SegmentationTree =
  nodes :: store
  total_morph_tokens :: int
  unique_morph_types :: int

text \<open>
  The ways in which a call does not return a value: an \<^verbatim>\<open>assert\<close> that fails, the
  \<^verbatim>\<open>std::out_of_range\<close> of \<^verbatim>\<open>at\<close> for a missing key, a recursion that does not end
  within its bound, a logarithm of a number that is not positive (the result is not a
  finite number), a conversion of a \<^verbatim>\<open>double\<close> to \<^verbatim>\<open>int\<close> whose value does not fit, and
  an \<^verbatim>\<open>int\<close> operation whose result does not fit (its behaviour is undefined).
\<close>

datatype failure =
  AssertionFailed | OutOfRange | NoReturn | NotFinite | ConversionOverflow | SignedOverflow

text \<open>\<^verbatim>\<open>nodes_[key]\<close>: a missing key is inserted with a default node of count 0.\<close>

definition index_store :: "store \<Rightarrow> string \<Rightarrow> store" where
  "index_store ns k = (case ns k of None \<Rightarrow> ns(k \<mapsto> new_node 0) | Some n \<Rightarrow> ns)"

definition node_at :: "store \<Rightarrow> string \<Rightarrow> MorphNode" where
  "node_at ns k = (case ns k of None \<Rightarrow> new_node 0 | Some n \<Rightarrow> n)"

definition SegmentationTree_init :: SegmentationTree where
  "SegmentationTree_init = \<lparr>nodes = Map.empty, total_morph_tokens = 0, unique_morph_types = 0\<rparr>"

text \<open>
  \<^verbatim>\<open>emplace(morph, frequency) { nodes_.emplace(morph, frequency); }\<close>: the map's
  \<^verbatim>\<open>emplace\<close> constructs the node only when the key is absent.
\<close>

definition emplace :: "string \<Rightarrow> nat \<Rightarrow> SegmentationTree \<Rightarrow> SegmentationTree" where
  "emplace morph frequency t =
     (case nodes t morph of
        None \<Rightarrow> t\<lparr>nodes := (nodes t)(morph \<mapsto> new_node frequency)\<rparr>
      | Some n \<Rightarrow> t)"

definition contains :: "SegmentationTree \<Rightarrow> string \<Rightarrow> bool" where
  "contains t morph \<longleftrightarrow> nodes t morph \<noteq> None"

text \<open>
  \<^verbatim>\<open>IncreaseNodeCount\<close> follows the child keys stored in the map, so it returns only when
  the chain of children ends; the first argument bounds the depth of the recursion and
  \<open>None\<close> stands for a call that does not return within it.
\<close>

fun IncreaseNodeCount :: "nat \<Rightarrow> string \<Rightarrow> nat \<Rightarrow> SegmentationTree \<Rightarrow> SegmentationTree option" where
  "IncreaseNodeCount 0 subtree_key increase t = None"
| "IncreaseNodeCount (Suc fuel) subtree_key increase t =
     (let t0 = t\<lparr>nodes := index_store (nodes t) subtree_key\<rparr>;
          lc = left_child (node_at (nodes t0) subtree_key)
      in case (if lc \<noteq> [] then IncreaseNodeCount fuel lc increase t0 else Some t0) of
           None \<Rightarrow> None
         | Some t1 \<Rightarrow>
             (let rc = right_child (node_at (nodes t1) subtree_key)
              in case (if rc \<noteq> [] then IncreaseNodeCount fuel rc increase t1 else Some t1) of
                   None \<Rightarrow> None
                 | Some t2 \<Rightarrow>
                     (let n = node_at (nodes t2) subtree_key;
                          n' = n\<lparr>count := count n + increase\<rparr>;
                          t3 = t2\<lparr>nodes := (nodes t2)(subtree_key \<mapsto> n')\<rparr>
                      in Some (if \<not> has_children n'
                               then t3\<lparr>total_morph_tokens := total_morph_tokens t3 + int increase\<rparr>
                               else t3))))"

text \<open>
  \<^verbatim>\<open>Split\<close>: the four assertions are branches that fail; \<^verbatim>\<open>node\<close> is a pointer into the
  map, so every \<^verbatim>\<open>node->...\<close> reads the node stored under \<open>morph\<close> at that moment.
\<close>

definition Split :: "nat \<Rightarrow> string \<Rightarrow> nat \<Rightarrow> SegmentationTree \<Rightarrow> failure + SegmentationTree" where
  "Split fuel morph left_length t =
     (if \<not> length morph > 1 then Inl AssertionFailed
      else if \<not> (left_length > 0 \<and> left_length < length morph) then Inl AssertionFailed
      else case nodes t morph of
        None \<Rightarrow> Inl AssertionFailed
      | Some node \<Rightarrow>
          if has_children node then Inl AssertionFailed
          else
            (let node1 = node\<lparr>left_child := take left_length morph,
                                right_child := drop left_length morph\<rparr>;
                 t1 = t\<lparr>nodes := (nodes t)(morph \<mapsto> node1),
                        total_morph_tokens := total_morph_tokens t - int (count node1)\<rparr>
             in case IncreaseNodeCount fuel (left_child node1) (count node1) t1 of
                  None \<Rightarrow> Inl NoReturn
                | Some t2 \<Rightarrow>
                    (let node2 = node_at (nodes t2) morph
                     in case IncreaseNodeCount fuel (right_child node2) (count node2) t2 of
                          None \<Rightarrow> Inl NoReturn
                        | Some t3 \<Rightarrow>
                            (let node3 = node_at (nodes t3) morph;
                                 ns4 = index_store (nodes t3) (left_child node3);
                                 l_new = (count (node_at ns4 (left_child node3))
                                            = count (node_at ns4 morph));
                                 ns5 = index_store ns4 (right_child (node_at ns4 morph));
                                 r_new = (count (node_at ns5 (right_child (node_at ns5 morph)))
                                            = count (node_at ns5 morph))
                             in Inr (t3\<lparr>nodes := ns5,
                                        unique_morph_types := unique_morph_types t3
                                          + (-1 + (if l_new then 1 else 0) + (if r_new then 1 else 0))\<rparr>)))))"

text \<open>A sequence of splits, stopping at the first failure.\<close>

fun Split_all :: "nat \<Rightarrow> (string \<times> nat) list \<Rightarrow> SegmentationTree \<Rightarrow> failure + SegmentationTree" where
  "Split_all fuel [] t = Inr t"
| "Split_all fuel ((m, k) # rest) t =
     (case Split fuel m k t of Inl e \<Rightarrow> Inl e | Inr t' \<Rightarrow> Split_all fuel rest t')"

definition count_of :: "SegmentationTree \<Rightarrow> string \<Rightarrow> nat option" where
  "count_of t m = map_option count (nodes t m)"

definition scenario4 :: "failure + SegmentationTree" where
  "scenario4 =
     Split_all 9 [(''reopening'', 2), (''opening'', 4), (''retry'', 2), (''trying'', 3)]
       (emplace ''trying'' 4 (emplace ''retry'' 2 (emplace ''reopening'' 1 SegmentationTree_init)))"

text \<open>
  The structural invariants of the store and its counters. A leaf is a stored node
  without children.
\<close>

definition leaf_keys :: "store \<Rightarrow> string set" where
  "leaf_keys ns = {k. \<exists>n. ns k = Some n \<and> \<not> has_children n}"

definition node_ok :: "string \<Rightarrow> MorphNode \<Rightarrow> bool" where
  "node_ok k n \<longleftrightarrow>
     (left_child n = [] \<longleftrightarrow> right_child n = [])
     \<and> (has_children n \<longrightarrow> k = left_child n @ right_child n)
     \<and> 0 < count n"

definition structural_invariant :: "SegmentationTree \<Rightarrow> bool" where
  "structural_invariant t \<longleftrightarrow>
     (\<forall>k n. nodes t k = Some n \<longrightarrow> node_ok k n)
     \<and> total_morph_tokens t = (\<Sum>k \<in> leaf_keys (nodes t). int (count (node_at (nodes t) k)))
     \<and> unique_morph_types t = int (card (leaf_keys (nodes t)))"

text \<open>
  What the specification says about the change of \<^verbatim>\<open>unique_morph_types\<close> by a split:
  minus one, plus one for each half whose count before the split was zero.
\<close>

definition Split_unique_delta_spec :: "SegmentationTree \<Rightarrow> string \<Rightarrow> nat \<Rightarrow> int" where
  "Split_unique_delta_spec t morph k =
     -1 + (if count (node_at (nodes t) (take k morph)) = 0 then 1 else 0)
        + (if count (node_at (nodes t) (drop k morph)) = 0 then 1 else 0)"

text \<open>Trees holding one leaf, with the counters that belong to it.\<close>

definition single_leaf :: "string \<Rightarrow> nat \<Rightarrow> SegmentationTree" where
  "single_leaf morph c =
     \<lparr>nodes = [morph \<mapsto> new_node c], total_morph_tokens = int c, unique_morph_types = 1\<rparr>"

subsection \<open>Shared sub-morph counts\<close>

text \<open>
  C1. From the empty tree, after the three \<^verbatim>\<open>emplace\<close> calls and the four splits of the
  scenario, every split succeeds and the stored counts are 3 for \<open>re\<close>, 5 for \<open>ing\<close>,
  1 for \<open>open\<close> and 6 for \<open>try\<close>.
\<close>

theorem scenario4_counts:
  "\<exists>t. scenario4 = Inr t \<and> count_of t ''re'' = Some 3 \<and> count_of t ''ing'' = Some 5
     \<and> count_of t ''open'' = Some 1 \<and> count_of t ''try'' = Some 6"
  by (simp add: scenario4_def Split_def emplace_def SegmentationTree_init_def new_node_def
      has_children_def index_store_def node_at_def count_of_def Let_def eval_nat_numeral)

subsection \<open>A split into two equal halves\<close>

lemma Split_aa:
  "Split 2 ''aa'' 1 (single_leaf ''aa'' c) =
     Inr \<lparr>nodes = [''aa'' \<mapsto> \<lparr>count = c, left_child = ''a'', right_child = ''a''\<rparr>,
                      ''a'' \<mapsto> new_node (c + c)],
          total_morph_tokens = int c + int c,
          unique_morph_types = (if c = 0 then 2 else 0)\<rparr>"
  by (simp add: Split_def single_leaf_def new_node_def has_children_def index_store_def
      node_at_def Let_def eval_nat_numeral)

lemma leaf_keys_aa:
  "leaf_keys [''aa'' \<mapsto> \<lparr>count = 1, left_child = ''a'', right_child = ''a''\<rparr>,
              ''a'' \<mapsto> new_node 2] = {''a''}"
  by (auto simp add: leaf_keys_def has_children_def new_node_def split: if_splits)

text \<open>
  C3. On the tree whose only node is the leaf \<open>aa\<close> with count 1, neither half of
  \<^verbatim>\<open>Split("aa", 1)\<close> had a count before, so the specification's rule gives a change of
  \<open>+1\<close>; the code compares the count of \<open>a\<close> after both increments (2) with the
  count of \<open>aa\<close> (1), takes neither half for new and changes the counter by \<open>-1\<close>,
  although the store has one leaf after the split as it had before.
\<close>

theorem Split_equal_halves_unique_delta:
  "Split_unique_delta_spec (single_leaf ''aa'' 1) ''aa'' 1 = 1
   \<and> (\<exists>t'. Split 2 ''aa'' 1 (single_leaf ''aa'' 1) = Inr t'
          \<and> unique_morph_types t' - unique_morph_types (single_leaf ''aa'' 1) = -1
          \<and> leaf_keys (nodes t') = {''a''})"
proof -
  have "Split_unique_delta_spec (single_leaf ''aa'' 1) ''aa'' 1 = 1"
    by (simp add: Split_unique_delta_spec_def single_leaf_def node_at_def new_node_def)
  moreover have "unique_morph_types (single_leaf ''aa'' 1) = 1"
    by (simp add: single_leaf_def)
  moreover have "Suc (Suc 0) = 2"
    by simp
  ultimately show ?thesis
    unfolding Split_aa by (simp add: leaf_keys_aa del: One_nat_def)
qed

lemma leaf_keys_papa:
  "leaf_keys [''papa'' \<mapsto> \<lparr>count = 3, left_child = ''pa'', right_child = ''pa''\<rparr>,
              ''pa'' \<mapsto> new_node 6] = {''pa''}"
  by (auto simp add: leaf_keys_def has_children_def new_node_def split: if_splits)

lemma Split_papa:
  "Split 3 ''papa'' 2 (single_leaf ''papa'' 3) =
     Inr \<lparr>nodes = [''papa'' \<mapsto> \<lparr>count = 3, left_child = ''pa'', right_child = ''pa''\<rparr>,
                      ''pa'' \<mapsto> new_node 6],
          total_morph_tokens = 6, unique_morph_types = 0\<rparr>"
  by (simp add: Split_def single_leaf_def new_node_def has_children_def index_store_def
      node_at_def Let_def eval_nat_numeral)

lemma single_leaf_invariant: "0 < c \<Longrightarrow> structural_invariant (single_leaf m c)"
proof -
  assume c: "0 < c"
  have "leaf_keys [m \<mapsto> new_node c] = {m}"
    by (auto simp add: leaf_keys_def has_children_def new_node_def split: if_splits)
  with c show ?thesis
    by (simp add: structural_invariant_def single_leaf_def node_ok_def has_children_def
        new_node_def node_at_def)
qed

text \<open>
  C2. The tree whose only node is the leaf \<open>papa\<close> with count 3 satisfies the structural
  invariants; after \<^verbatim>\<open>Split("papa", 2)\<close> the store has the single leaf \<open>pa\<close> and
  \<^verbatim>\<open>unique_morph_types\<close> is 0, so the invariants no longer hold.
\<close>

theorem Split_breaks_structural_invariant:
  "structural_invariant (single_leaf ''papa'' 3)
   \<and> (\<exists>t'. Split 3 ''papa'' 2 (single_leaf ''papa'' 3) = Inr t'
          \<and> unique_morph_types t' = 0 \<and> card (leaf_keys (nodes t')) = 1
          \<and> \<not> structural_invariant t')"
proof -
  have "structural_invariant (single_leaf ''papa'' 3)"
    by (rule single_leaf_invariant) simp
  moreover have "\<not> structural_invariant
      \<lparr>nodes = [''papa'' \<mapsto> \<lparr>count = 3, left_child = ''pa'', right_child = ''pa''\<rparr>,
                  ''pa'' \<mapsto> new_node 6],
       total_morph_tokens = 6, unique_morph_types = 0\<rparr>"
    by (simp add: structural_invariant_def leaf_keys_papa)
  ultimately show ?thesis
    unfolding Split_papa by (simp add: leaf_keys_papa)
qed

theorem Split_breaks_structural_invariant_witness:
  "\<exists>t'. Split 3 ''papa'' 2 (single_leaf ''papa'' 3) = Inr t'
        \<and> unique_morph_types t' \<noteq> int (card (leaf_keys (nodes t')))"
  using Split_breaks_structural_invariant by auto

section \<open>The implicit-frequency cost\<close>

text \<open>
  The counters are \<^verbatim>\<open>size_t\<close>: \<^verbatim>\<open>ProbabilityFromImplicitFrequencies\<close> subtracts from them
  before it converts to \<^verbatim>\<open>double\<close>, so the model reads them as 64-bit words, where
  subtraction wraps around.
\<close>

definition tokens_word :: "SegmentationTree \<Rightarrow> 64 word" where
  "tokens_word t = word_of_int (total_morph_tokens t)"

definition types_word :: "SegmentationTree \<Rightarrow> 64 word" where
  "types_word t = word_of_int (unique_morph_types t)"

text \<open>
  \<^verbatim>\<open>boost::math::binomial_coefficient<double>(n, k)\<close> takes two \<^verbatim>\<open>unsigned\<close> arguments and
  raises a domain error unless \<open>k \<le> n\<close>.
\<close>

definition binomial_coefficient :: "64 word \<Rightarrow> 64 word \<Rightarrow> real option" where
  "binomial_coefficient n k =
     (let n' = unat (ucast n :: 32 word); k' = unat (ucast k :: 32 word)
      in if k' \<le> n' then Some (real (n' choose k')) else None)"

text \<open>The values handed to \<^verbatim>\<open>std::log2\<close> by one call, in the order of the source.\<close>

definition implicit_frequency_log2_args :: "SegmentationTree \<Rightarrow> real list" where
  "implicit_frequency_log2_args t =
     (let T = tokens_word t; U = types_word t
      in if T < 100
         then (case binomial_coefficient (T - 1) (U - 1) of None \<Rightarrow> [] | Some b \<Rightarrow> [b])
         else [real (unat (T - 2)), real (unat (U - 2)), real (unat (T - U - 1))])"

text \<open>
  The result is a real number only when every logarithm is one: \<^verbatim>\<open>log2(0)\<close> is minus
  infinity, and since the factor in front of it is then 1 (for \<open>U = 2\<close> and for
  \<open>T - U = 1\<close>) the sum is infinite or not a number.
\<close>

definition ProbabilityFromImplicitFrequencies :: "SegmentationTree \<Rightarrow> failure + real" where
  "ProbabilityFromImplicitFrequencies t =
     (let T = tokens_word t; U = types_word t
      in if T < 100
         then (case binomial_coefficient (T - 1) (U - 1) of
                 None \<Rightarrow> Inl OutOfRange
               | Some b \<Rightarrow> Inr (log 2 b))
         else if unat (T - 2) = 0 \<or> unat (U - 2) = 0 \<or> unat (T - U - 1) = 0
         then Inl NotFinite
         else Inr (real (unat (T - 1)) * log 2 (real (unat (T - 2)))
                   - real (unat (U - 1)) * log 2 (real (unat (U - 2)))
                   - real (unat (T - U)) * log 2 (real (unat (T - U - 1)))))"

definition two_words :: SegmentationTree where
  "two_words = \<lparr>nodes = [''a'' \<mapsto> new_node 50, ''b'' \<mapsto> new_node 50],
                 total_morph_tokens = 100, unique_morph_types = 2\<rparr>"

lemma two_words_invariant: "structural_invariant two_words"
proof -
  have "leaf_keys [''a'' \<mapsto> new_node 50, ''b'' \<mapsto> new_node 50] = {''a'', ''b''}"
    by (auto simp add: leaf_keys_def has_children_def new_node_def split: if_splits)
  then show ?thesis
    by (simp add: structural_invariant_def two_words_def node_ok_def has_children_def
        new_node_def node_at_def)
qed

text \<open>
  C8. A tree of two leaves with 50 tokens each satisfies the structural invariants and has
  100 tokens, so the approximation branch is taken; it hands \<open>U - 2 = 0\<close> to
  \<^verbatim>\<open>log2\<close> and the result is not a finite number.
\<close>

theorem implicit_frequency_log2_of_zero:
  "structural_invariant two_words
   \<and> implicit_frequency_log2_args two_words = [98, 0, 97]
   \<and> ProbabilityFromImplicitFrequencies two_words = Inl NotFinite"
  by (simp add: two_words_invariant)
     (simp add: implicit_frequency_log2_args_def ProbabilityFromImplicitFrequencies_def
        tokens_word_def types_word_def two_words_def)

theorem implicit_frequency_log2_of_zero_witness:
  "0 \<in> set (implicit_frequency_log2_args two_words)"
  using implicit_frequency_log2_of_zero by simp

section \<open>The letter table\<close>

text \<open>
  \<^verbatim>\<open>Probability\<close> is a \<^verbatim>\<open>double\<close>. A finite value is modelled by a real number; the
  values that are not finite numbers are kept as such, since \<^verbatim>\<open>std::log2(0)\<close> is minus
  infinity and the difference of two infinities of the same sign is not a number.
\<close>

datatype double = Finite real | PlusInfinity | MinusInfinity | NotANumber

text \<open>\<^verbatim>\<open>std::log2\<close> of a count converted to \<^verbatim>\<open>double\<close>.\<close>

definition log2_double :: "real \<Rightarrow> double" where
  "log2_double x =
     (if 0 < x then Finite (log 2 x) else if x = 0 then MinusInfinity else NotANumber)"

text \<open>Subtraction and addition of doubles.\<close>

fun minus_double :: "double \<Rightarrow> double \<Rightarrow> double" where
  "minus_double (Finite a) (Finite b) = Finite (a - b)"
| "minus_double (Finite a) PlusInfinity = MinusInfinity"
| "minus_double (Finite a) MinusInfinity = PlusInfinity"
| "minus_double PlusInfinity (Finite b) = PlusInfinity"
| "minus_double PlusInfinity MinusInfinity = PlusInfinity"
| "minus_double MinusInfinity (Finite b) = MinusInfinity"
| "minus_double MinusInfinity PlusInfinity = MinusInfinity"
| "minus_double x y = NotANumber"


text \<open>
  \<^verbatim>\<open>std::unordered_map<char, Probability>\<close>: the table is kept as a list of entries with
  distinct keys, in the order in which the keys were first written. In the first loop
  the entries are sums of counts, which are finite; the second loop and the end marker
  store costs, which need not be.
\<close>

type_synonym letter_table = "(char \<times> real) list"

type_synonym cost_table = "(char \<times> double) list"

text \<open>\<^verbatim>\<open>letter_probabilities[c] += x\<close> and \<^verbatim>\<open>letter_probabilities[c] = x\<close>.\<close>

fun add_to_entry :: "char \<Rightarrow> real \<Rightarrow> letter_table \<Rightarrow> letter_table" where
  "add_to_entry c x [] = [(c, 0 + x)]"
| "add_to_entry c x ((d, v) # tab) =
     (if c = d then (d, v + x) # tab else (d, v) # add_to_entry c x tab)"

fun assign_entry :: "char \<Rightarrow> 'a \<Rightarrow> (char \<times> 'a) list \<Rightarrow> (char \<times> 'a) list" where
  "assign_entry c x [] = [(c, x)]"
| "assign_entry c x ((d, v) # tab) =
     (if c = d then (d, x) # tab else (d, v) # assign_entry c x tab)"

text \<open>The local variables of the first loop of \<^verbatim>\<open>LetterProbabilities\<close>.\<close>

record letter_counts =
  total_letters :: nat
  unique_morphs :: nat
  morph_tokens :: nat
  letter_probabilities :: letter_table

text \<open>The loop over the characters of one leaf: \<^verbatim>\<open>for (auto c : morph_string)\<close>.\<close>

fun count_letters :: "nat \<Rightarrow> string \<Rightarrow> letter_counts \<Rightarrow> letter_counts" where
  "count_letters c [] s = s"
| "count_letters c (ch # morph_string) s =
     count_letters c morph_string
       (s\<lparr>total_letters := total_letters s + c,
          letter_probabilities := add_to_entry ch (real c) (letter_probabilities s)\<rparr>)"

text \<open>
  The loop over \<^verbatim>\<open>nodes_\<close>; the list \<open>ks\<close> gives the keys in the order in which the
  unordered map hands them out.
\<close>

fun count_nodes :: "store \<Rightarrow> string list \<Rightarrow> letter_counts \<Rightarrow> letter_counts" where
  "count_nodes ns [] s = s"
| "count_nodes ns (k # ks) s =
     count_nodes ns ks
       (let node = node_at ns k
        in if \<not> has_children node
           then count_letters (count node) k
                  (s\<lparr>unique_morphs := unique_morphs s + 1,
                     morph_tokens := morph_tokens s + count node\<rparr>)
           else s)"

text \<open>
  The second loop replaces every count \<open>v\<close> by \<^verbatim>\<open>log_total_letters - std::log2(v)\<close>.
\<close>

definition letter_costs :: "double \<Rightarrow> letter_table \<Rightarrow> cost_table" where
  "letter_costs log_total_letters tab =
     map (\<lambda>(c, v). (c, minus_double log_total_letters (log2_double v))) tab"

text \<open>
  \<^verbatim>\<open>LetterProbabilities\<close>, with its two assertions. Every call that passes them returns a
  table; for a tree without leaves in end-marker mode both logarithms are minus infinity
  and the entry of the end marker is not a number.
\<close>

definition LetterProbabilities :: "string list \<Rightarrow> bool \<Rightarrow> SegmentationTree \<Rightarrow> failure + cost_table" where
  "LetterProbabilities ks include_end_of_string t =
     (let s = count_nodes (nodes t) ks
                \<lparr>total_letters = 0, unique_morphs = 0, morph_tokens = 0, letter_probabilities = []\<rparr>
      in if int (unique_morphs s) \<noteq> unique_morph_types t then Inl AssertionFailed
         else if int (morph_tokens s) \<noteq> total_morph_tokens t then Inl AssertionFailed
         else
           (let n_total = (if include_end_of_string then total_letters s + morph_tokens s
                         else total_letters s);
                log_total_letters = log2_double (real n_total);
                tab = letter_costs log_total_letters (letter_probabilities s)
            in if include_end_of_string
               then Inr (assign_entry (CHR ''#'')
                           (minus_double log_total_letters (log2_double (real (morph_tokens s))))
                           tab)
               else Inr tab))"



























section \<open>The segmentation of \<^verbatim>\<open>segmentation.cc\<close> and its model\<close>

text \<open>
  Modelled from the spec: the class \<^verbatim>\<open>Model\<close> (\<^verbatim>\<open>model.h\<close>, \<^verbatim>\<open>model.cc\<close>) is not among the
  sources. The record holds what the specification says a model has: the algorithm
  mode, the two counters that the hooks \<^verbatim>\<open>adjust_morph_token_count\<close> and
  \<^verbatim>\<open>adjust_unique_morph_count\<close> maintain, the hapax-legomena prior, the letter table and
  the cost of a morph length under the explicit length prior (minus the binary logarithm
  of a Gamma density, which an external library evaluates).
\<close>

datatype AlgorithmModes = kBaseline | kBaselineFreq | kBaselineFreqLength | kBaselineLength

record Model =
  algorithm_mode :: AlgorithmModes
  model_total_morph_tokens :: int
  model_unique_morph_types :: int
  hapax_legomena_prior :: real
  model_letter_probabilities :: letter_table
  explicit_length_cost :: "nat \<Rightarrow> real"

text \<open>\<^verbatim>\<open>Segmentation\<close>: the store \<^verbatim>\<open>nodes_\<close> and the model \<^verbatim>\<open>model_\<close>.\<close>

record Segmentation =
  seg_nodes :: store
  seg_model :: Model

subsection \<open>The decoder\<close>

text \<open>
  \<^verbatim>\<open>auto morph_cost = 0;\<close> declares an \<^verbatim>\<open>int\<close>, so the two assignments to it convert a
  \<^verbatim>\<open>double\<close> to \<^verbatim>\<open>int\<close>: the value is truncated towards zero, and the conversion is
  undefined when the truncated value does not fit into 32 bits.
\<close>

definition double_to_int :: "real \<Rightarrow> failure + int" where
  "double_to_int x =
     (if - 2147483649 < x \<and> x < 2147483648
      then Inr (if 0 \<le> x then \<lfloor>x\<rfloor> else \<lceil>x\<rceil>)
      else Inl ConversionOverflow)"

text \<open>\<^verbatim>\<open>std::string::substr(pos, n)\<close> for \<open>pos\<close> within the string.\<close>

definition substr :: "string \<Rightarrow> nat \<Rightarrow> nat \<Rightarrow> string" where
  "substr s pos n = take n (drop pos s)"

text \<open>
  Modelled from the spec: the members \<^verbatim>\<open>contains\<close> and \<^verbatim>\<open>at\<close> of \<^verbatim>\<open>Segmentation\<close> and
  \<^verbatim>\<open>total_morph_tokens\<close> of \<^verbatim>\<open>Model\<close> are declared in headers that are not among the
  sources (\<^verbatim>\<open>segmentation.h\<close>, \<^verbatim>\<open>model.h\<close>). The specification describes \<^verbatim>\<open>contains\<close> as
  a membership test and \<^verbatim>\<open>at\<close> as read-only access to the node; the header of the tree
  (\<^verbatim>\<open>morph_node.h\<close>) defines its \<^verbatim>\<open>contains\<close> by \<^verbatim>\<open>nodes_.find\<close> and its \<^verbatim>\<open>at\<close> by
  \<^verbatim>\<open>nodes_.at\<close>, which throws \<^verbatim>\<open>std::out_of_range\<close> for a missing key. Each member is a
  function from the segmentation before the call to its value and the segmentation after
  the call.
\<close>

definition Segmentation_contains :: "string \<Rightarrow> Segmentation \<Rightarrow> bool \<times> Segmentation" where
  "Segmentation_contains morph seg = (seg_nodes seg morph \<noteq> None, seg)"

definition Segmentation_at :: "string \<Rightarrow> Segmentation \<Rightarrow> failure + (MorphNode \<times> Segmentation)" where
  "Segmentation_at morph seg =
     (case seg_nodes seg morph of None \<Rightarrow> Inl OutOfRange | Some node \<Rightarrow> Inr (node, seg))"

definition Model_total_morph_tokens :: "Segmentation \<Rightarrow> int \<times> Segmentation" where
  "Model_total_morph_tokens seg = (model_total_morph_tokens (seg_model seg), seg)"

text \<open>
  \<^verbatim>\<open>SegmentTestCorpus\<close> is a member function of the segmentation that is not declared
  \<^verbatim>\<open>const\<close>. Each function of the decoder takes the segmentation as it is before and
  returns its value together with the segmentation as it is after: the segmentation
  passes through every call of \<^verbatim>\<open>contains\<close> and \<^verbatim>\<open>at\<close>.

  The cost of one candidate morph: the value \<open>None\<close> is the \<^verbatim>\<open>continue\<close> of the source.
  The logarithm of a zero count is not finite.
\<close>

definition morph_cost ::
  "Segmentation \<Rightarrow> real \<Rightarrow> real \<Rightarrow> string \<Rightarrow> nat \<Rightarrow> failure + (int option \<times> Segmentation)" where
  "morph_cost seg log_token_count bad_likelihood morph morph_length =
     (case Segmentation_contains morph seg of
        (True, seg1) \<Rightarrow>
          (case Segmentation_at morph seg1 of
             Inl e \<Rightarrow> Inl e
           | Inr (node, seg2) \<Rightarrow>
               if 0 < count node
               then (case double_to_int (log_token_count - ln (real (count node))) of
                       Inl e \<Rightarrow> Inl e
                     | Inr cost \<Rightarrow> Inr (Some cost, seg2))
               else Inl NotFinite)
      | (False, seg1) \<Rightarrow>
          if morph_length = 1
          then (case double_to_int bad_likelihood of
                  Inl e \<Rightarrow> Inl e
                | Inr cost \<Rightarrow> Inr (Some cost, seg1))
          else Inr (None, seg1))"

text \<open>The inner loop, over \<^verbatim>\<open>morph_length\<close> from 1 to \<^verbatim>\<open>end_index\<close>.\<close>

fun best_split ::
  "Segmentation \<Rightarrow> real \<Rightarrow> real \<Rightarrow> string \<Rightarrow> real list \<Rightarrow> nat \<Rightarrow> nat list \<Rightarrow> real \<times> nat
     \<Rightarrow> failure + ((real \<times> nat) \<times> Segmentation)" where
  "best_split seg log_token_count bad_likelihood word delta end_index [] best = Inr (best, seg)"
| "best_split seg log_token_count bad_likelihood word delta end_index (morph_length # rest)
       (best_delta, best_length) =
     (case morph_cost seg log_token_count bad_likelihood
             (substr word (end_index - morph_length) morph_length) morph_length of
        Inl e \<Rightarrow> Inl e
      | Inr (None, seg1) \<Rightarrow>
          best_split seg1 log_token_count bad_likelihood word delta end_index rest
            (best_delta, best_length)
      | Inr (Some cost, seg1) \<Rightarrow>
          if \<not> (end_index \<ge> morph_length \<and> end_index - morph_length < length delta)
          then Inl AssertionFailed
          else
            (let current_delta = delta ! (end_index - morph_length) + real_of_int cost
             in best_split seg1 log_token_count bad_likelihood word delta end_index rest
                  (if current_delta < best_delta then (current_delta, morph_length)
                   else (best_delta, best_length))))"

text \<open>The outer loop, over \<^verbatim>\<open>end_index\<close> from 1 to the length of the word.\<close>

fun viterbi ::
  "Segmentation \<Rightarrow> real \<Rightarrow> real \<Rightarrow> real \<Rightarrow> string \<Rightarrow> nat list \<Rightarrow> real list \<times> nat list
     \<Rightarrow> failure + ((real list \<times> nat list) \<times> Segmentation)" where
  "viterbi seg log_token_count bad_likelihood pseudo_infinite_cost word [] dp = Inr (dp, seg)"
| "viterbi seg log_token_count bad_likelihood pseudo_infinite_cost word (end_index # rest)
       (delta, psi) =
     (case best_split seg log_token_count bad_likelihood word delta end_index
             [1..<end_index + 1] (pseudo_infinite_cost, 0) of
        Inl e \<Rightarrow> Inl e
      | Inr ((best_delta, best_length), seg1) \<Rightarrow>
          if \<not> (end_index > 0 \<and> end_index < length delta) then Inl AssertionFailed
          else viterbi seg1 log_token_count bad_likelihood pseudo_infinite_cost word rest
                 (delta[end_index := best_delta], psi[end_index := best_length]))"

text \<open>
  The loop that builds the output string from \<^verbatim>\<open>psi\<close>. Reading \<^verbatim>\<open>psi\<close> outside its
  bounds and stepping below index 0 have no defined behaviour in the source; they are
  failures of the model, which makes the recursion terminate on every input.
\<close>

function backtrace :: "string \<Rightarrow> nat list \<Rightarrow> nat \<Rightarrow> string \<Rightarrow> failure + string" where
  "backtrace word psi end_index str =
     (if \<not> end_index < length psi then Inl OutOfRange
      else if psi ! end_index = 0 then Inr str
      else if \<not> (end_index > 0 \<and> end_index < length psi) then Inl AssertionFailed
      else if end_index < psi ! end_index then Inl OutOfRange
      else backtrace word psi (end_index - psi ! end_index)
             (substr word (end_index - psi ! end_index) (psi ! end_index) @ '' '' @ str))"
  by pat_completeness auto
termination
  by (relation "measure (\<lambda>(word, psi, end_index, str). end_index)") auto

declare backtrace.simps [simp del]

text \<open>
  The body of the loop over the test corpus, for one word. \<open>token_count\<close> is the count
  that the model returned before the loop; its logarithm is not finite for a count of
  zero.
\<close>

definition segment_word :: "Segmentation \<Rightarrow> int \<Rightarrow> string \<Rightarrow> failure + (string \<times> Segmentation)" where
  "segment_word seg token_count word =
     (if token_count \<le> 0 then Inl NotFinite
      else
        (let log_token_count = ln (real_of_int token_count);
             word_length = length word;
             bad_likelihood = (real word_length + 1) * log_token_count;
             pseudo_infinite_cost = (real word_length + 1) * bad_likelihood
         in case viterbi seg log_token_count bad_likelihood pseudo_infinite_cost word
                   [1..<word_length + 1]
                   (replicate (word_length + 1) 0, replicate (word_length + 1) 0) of
              Inl e \<Rightarrow> Inl e
            | Inr ((delta, psi), seg1) \<Rightarrow>
                (case backtrace word psi word_length [] of
                   Inl e \<Rightarrow> Inl e
                 | Inr str \<Rightarrow> Inr (str, seg1))))"

text \<open>The loop over the test corpus.\<close>

fun segment_all ::
  "Segmentation \<Rightarrow> int \<Rightarrow> (string \<times> nat) list \<Rightarrow> failure + (string list \<times> Segmentation)" where
  "segment_all seg token_count [] = Inr ([], seg)"
| "segment_all seg token_count ((word, frequency) # rest) =
     (case segment_word seg token_count word of
        Inl e \<Rightarrow> Inl e
      | Inr (str, seg1) \<Rightarrow>
          (case segment_all seg1 token_count rest of
             Inl e \<Rightarrow> Inl e
           | Inr (segmentations, seg2) \<Rightarrow> Inr (str # segmentations, seg2)))"

text \<open>
  \<^verbatim>\<open>SegmentTestCorpus\<close>: the token count is read from the model once, then the words are
  segmented in turn. The result is the list of segmentations together with the
  segmentation as the call leaves it.
\<close>

definition SegmentTestCorpus ::
  "(string \<times> nat) list \<Rightarrow> Segmentation \<Rightarrow> failure + (string list \<times> Segmentation)" where
  "SegmentTestCorpus test_corpus seg =
     (case Model_total_morph_tokens seg of
        (token_count, seg1) \<Rightarrow> segment_all seg1 token_count test_corpus)"

text \<open>Each morph followed by one space.\<close>

definition spaced :: "string list \<Rightarrow> string" where
  "spaced ms = concat (map (\<lambda>m. m @ '' '') ms)"

lemma backtrace_spaced:
  "backtrace word psi e str = Inr out \<Longrightarrow> e \<le> length word \<Longrightarrow>
     \<exists>ms j. out = spaced ms @ str \<and> (\<forall>m \<in> set ms. m \<noteq> []) \<and> j \<le> e
            \<and> concat ms = take (e - j) (drop j word) \<and> (ms = [] \<longleftrightarrow> psi ! e = 0)"
proof (induction word psi e str arbitrary: out rule: backtrace.induct)
  case (1 word psi e str)
  show ?case
  proof (cases "psi ! e = 0")
    case True
    with "1.prems" have "out = str"
      by (simp add: backtrace.simps [of word psi e str] split: if_splits)
    then show ?thesis
      using True by (intro exI [of _ "[]"] exI [of _ e]) (simp add: spaced_def)
  next
    case False
    define l where "l = psi ! e"
    from False "1.prems" have in_range: "e < length psi" "0 < e" "l \<le> e" "0 < l"
      and rec: "backtrace word psi (e - l) (substr word (e - l) l @ '' '' @ str) = Inr out"
      by (auto simp add: backtrace.simps [of word psi e str] l_def split: if_splits)
    have "\<exists>ms j. out = spaced ms @ (substr word (e - l) l @ '' '' @ str)
        \<and> (\<forall>m \<in> set ms. m \<noteq> []) \<and> j \<le> e - l
        \<and> concat ms = take (e - l - j) (drop j word) \<and> (ms = [] \<longleftrightarrow> psi ! (e - l) = 0)"
      using "1.IH" [of out] False in_range rec "1.prems"(2)
      by (simp add: l_def)
    then obtain ms j where ms: "out = spaced ms @ (substr word (e - l) l @ '' '' @ str)"
        "\<forall>m \<in> set ms. m \<noteq> []" "j \<le> e - l"
        "concat ms = take (e - l - j) (drop j word)"
      by blast
    let ?m = "substr word (e - l) l"
    have m_ne: "?m \<noteq> []"
      using in_range "1.prems"(2) by (simp add: substr_def)
    have "take (e - l - j) (drop j word) @ ?m = take (e - j) (drop j word)"
    proof -
      have "e - l - j + j = e - l"
        using ms(3) by arith
      then have "drop (e - l) word = drop (e - l - j) (drop j word)"
        by (simp only: drop_drop)
      then have "?m = take l (drop (e - l - j) (drop j word))"
        by (simp add: substr_def)
      moreover have "take (e - j) (drop j word)
          = take (e - l - j) (drop j word) @ take l (drop (e - l - j) (drop j word))"
      proof -
        have "e - j = (e - l - j) + l"
          using in_range ms(3) by arith
        then show ?thesis
          by (simp only: take_add)
      qed
      ultimately show ?thesis by simp
    qed
    then have cat: "concat (ms @ [?m]) = take (e - j) (drop j word)"
      by (simp add: ms(4))
    have out: "out = spaced (ms @ [?m]) @ str"
      by (simp add: ms(1) spaced_def)
    have ne: "\<forall>m \<in> set (ms @ [?m]). m \<noteq> []"
      using ms(2) m_ne by simp
    have j: "j \<le> e"
      using ms(3) by arith
    have iff: "ms @ [?m] = [] \<longleftrightarrow> psi ! e = 0"
      using False by simp
    show ?thesis
      by (rule exI [of _ "ms @ [?m]"], rule exI [of _ j]) (intro conjI out ne j cat iff)
  qed
qed


text \<open>
  The output format in the words of the specification: the morphs separated by a
  single space, with no space after the last one.
\<close>

fun joined_spec :: "string list \<Rightarrow> string" where
  "joined_spec [] = []"
| "joined_spec [m] = m"
| "joined_spec (m # ms) = m @ '' '' @ joined_spec ms"

text \<open>
  \<open>str\<close> consists of non-empty morphs, each followed by one space, whose concatenation
  is a suffix of \<open>word\<close>.
\<close>

definition spaced_suffix_of :: "string \<Rightarrow> string \<Rightarrow> bool" where
  "spaced_suffix_of word str \<longleftrightarrow>
     (\<exists>ms j. str = spaced ms \<and> (\<forall>m \<in> set ms. m \<noteq> []) \<and> j \<le> length word
             \<and> concat ms = drop j word)"

definition decoder_model :: Model where
  "decoder_model =
     \<lparr>algorithm_mode = kBaseline, model_total_morph_tokens = 3, model_unique_morph_types = 2,
      hapax_legomena_prior = 1 / 2, model_letter_probabilities = [],
      explicit_length_cost = (\<lambda>l. 0)\<rparr>"

definition decoder_example :: Segmentation where
  "decoder_example =
     \<lparr>seg_nodes = [''a'' \<mapsto> new_node 1, ''b'' \<mapsto> new_node 2], seg_model = decoder_model\<rparr>"

definition truncation_example :: Segmentation where
  "truncation_example =
     \<lparr>seg_nodes = [''a'' \<mapsto> new_node 2, ''b'' \<mapsto> new_node 1], seg_model = decoder_model\<rparr>"

lemma exp_1_ge_2: "2 \<le> exp (1::real)"
  using exp_ge_add_one_self [of "1::real"] by simp

lemma ln_3_bounds: "1 \<le> ln (3::real)" "ln (3::real) < 2"
proof -
  have "ln (exp 1) \<le> ln (3::real)"
    using exp_le by (subst ln_le_cancel_iff) simp_all
  then show "1 \<le> ln (3::real)" by simp
  have "(3::real) < 2 * 2" by simp
  also have "\<dots> \<le> exp 1 * exp 1"
    using exp_1_ge_2 by (intro mult_mono) simp_all
  also have "\<dots> = exp (2::real)"
    by (simp flip: exp_add)
  finally have "ln (3::real) < ln (exp 2)"
    by (subst ln_less_cancel_iff) simp_all
  then show "ln (3::real) < 2" by simp
qed

lemma ln_3_2_bounds: "0 < ln (3::real) - ln 2" "ln (3::real) - ln 2 < 1"
proof -
  have eq: "ln (3::real) - ln 2 = ln (3 / 2)"
    by (simp add: ln_div)
  show "0 < ln (3::real) - ln 2"
    unfolding eq by (rule ln_gt_zero) simp
  have "(3 / 2 :: real) < exp 1"
    using exp_1_ge_2 by simp
  then have "ln (3 / 2 :: real) < ln (exp 1)"
    by (subst ln_less_cancel_iff) simp_all
  then show "ln (3::real) - ln 2 < 1"
    unfolding eq by simp
qed

lemma double_to_int_floor:
  "0 \<le> x \<Longrightarrow> x < 2 \<Longrightarrow> \<lfloor>x\<rfloor> = k \<Longrightarrow> double_to_int x = Inr k"
  by (simp add: double_to_int_def)

lemma double_to_int_ln_3: "double_to_int (ln 3) = Inr 1"
proof (rule double_to_int_floor)
  show "0 \<le> ln (3::real)" "ln (3::real) < 2"
    using ln_3_bounds by linarith+
  show "\<lfloor>ln (3::real)\<rfloor> = 1"
    using ln_3_bounds by (intro floor_unique) simp_all
qed

lemma double_to_int_ln_3_2: "double_to_int (ln 3 - ln 2) = Inr 0"
proof (rule double_to_int_floor)
  show "0 \<le> ln (3::real) - ln 2" "ln (3::real) - ln 2 < 2"
    using ln_3_2_bounds by linarith+
  show "\<lfloor>ln (3::real) - ln 2\<rfloor> = 0"
    using ln_3_2_bounds by (intro floor_unique) linarith+
qed

lemma segment_word_a:
  "segment_word decoder_example 3 ''a'' = Inr (''a '', decoder_example)"
proof -
  have "(1::real) < 2 * (2 * ln 3)"
    using ln_3_bounds by simp
  then show ?thesis
    by (simp add: segment_word_def decoder_example_def decoder_model_def morph_cost_def
        Segmentation_contains_def Segmentation_at_def
        substr_def new_node_def double_to_int_ln_3 backtrace.simps)
qed

lemma segment_all_spaced:
  "segment_all seg token_count corpus = Inr (segs, seg') \<Longrightarrow>
     list_all2 (\<lambda>entry str. spaced_suffix_of (fst entry) str) corpus segs"
proof (induction corpus arbitrary: seg segs)
  case Nil
  then show ?case by simp
next
  case (Cons entry corpus)
  obtain word frequency where entry: "entry = (word, frequency)" by (cases entry)
  from Cons.prems entry obtain str seg1 rest where
    str: "segment_word seg token_count word = Inr (str, seg1)"
    and rest: "segment_all seg1 token_count corpus = Inr (rest, seg')"
    and segs: "segs = str # rest"
    by (auto split: sum.splits prod.splits)
  from str obtain psi where "backtrace word psi (length word) [] = Inr str"
    by (auto simp add: segment_word_def Let_def split: if_splits sum.splits prod.splits)
  from backtrace_spaced [OF this] have "spaced_suffix_of word str"
    unfolding spaced_suffix_of_def by auto
  with Cons.IH [OF rest] show ?case
    by (simp add: segs entry)
qed

text \<open>
  C9 (as amended). Every entry of the list returned by \<^verbatim>\<open>SegmentTestCorpus\<close> consists of
  non-empty morphs of the corresponding test word (consecutive pieces that make up a
  suffix of the word), each morph followed by a single space: the space after the last
  morph is not trimmed. A backtrace that stops immediately (\<open>psi[n] = 0\<close>) yields the
  empty string.
\<close>

theorem SegmentTestCorpus_spaced:
  assumes "SegmentTestCorpus test_corpus seg = Inr (segmentations, seg')"
  shows "list_all2 (\<lambda>entry str. spaced_suffix_of (fst entry) str) test_corpus segmentations
    \<and> (\<forall>word psi end_index. end_index < length psi \<longrightarrow> psi ! end_index = 0 \<longrightarrow>
           backtrace word psi end_index [] = Inr [])"
proof (rule conjI)
  from assms have "segment_all seg (model_total_morph_tokens (seg_model seg)) test_corpus
      = Inr (segmentations, seg')"
    by (simp add: SegmentTestCorpus_def Model_total_morph_tokens_def)
  then show "list_all2 (\<lambda>entry str. spaced_suffix_of (fst entry) str) test_corpus segmentations"
    by (rule segment_all_spaced)
  show "\<forall>word psi end_index. end_index < length psi \<longrightarrow> psi ! end_index = 0 \<longrightarrow>
      backtrace word psi end_index [] = Inr []"
    by (simp add: backtrace.simps)
qed

lemma SegmentTestCorpus_a:
  "SegmentTestCorpus [(''a'', 2)] decoder_example = Inr ([''a ''], decoder_example)"
proof -
  have "model_total_morph_tokens (seg_model decoder_example) = 3"
    by (simp add: decoder_example_def decoder_model_def)
  then show ?thesis
    by (simp add: SegmentTestCorpus_def Model_total_morph_tokens_def segment_word_a)
qed

theorem SegmentTestCorpus_spaced_witness:
  "SegmentTestCorpus [(''a'', 2)] decoder_example = Inr ([''a ''], decoder_example)
   \<and> spaced_suffix_of ''a'' ''a ''"
  using SegmentTestCorpus_spaced [OF SegmentTestCorpus_a] SegmentTestCorpus_a by simp

text \<open>
  With the leaves \<open>a\<close> (count 1) and \<open>b\<close> (count 2) the word \<open>a\<close> is segmented
  into its single morph followed by a space, not into the trimmed string.
\<close>

theorem SegmentTestCorpus_untrimmed_counterexample:
  "SegmentTestCorpus [(''a'', 2)] decoder_example = Inr ([''a ''], decoder_example)
   \<and> joined_spec [''a''] = ''a'' \<and> ''a '' \<noteq> ''a''"
  by (simp add: SegmentTestCorpus_a)

text \<open>
  C6. With three tokens in the model and the leaf \<open>a\<close> of count 2, the cost charged for
  the candidate \<open>a\<close> is 0: the difference \<open>ln 3 - ln 2\<close>, which is positive, is truncated
  to an integer.
\<close>

theorem morph_cost_truncated:
  "morph_cost truncation_example (ln 3) (2 * ln 3) ''a'' 1 = Inr (Some 0, truncation_example)
   \<and> 0 < ln (3::real) - ln 2"
  using ln_3_2_bounds(1)
  by (simp add: morph_cost_def Segmentation_contains_def Segmentation_at_def
      truncation_example_def new_node_def double_to_int_ln_3_2)

subsection \<open>The decoder leaves the segmentation as it is\<close>

text \<open>
  None of the loops writes to the store or to the model: the segmentation that comes out
  of each of them is the one that went in.
\<close>

lemma morph_cost_frame:
  "morph_cost seg log_token_count bad_likelihood morph morph_length = Inr (cost, seg') \<Longrightarrow>
     seg' = seg"
  by (auto simp add: morph_cost_def Segmentation_contains_def Segmentation_at_def
      split: if_splits option.splits sum.splits)

lemma best_split_frame:
  "best_split seg log_token_count bad_likelihood word delta end_index lengths best
     = Inr (best', seg') \<Longrightarrow> seg' = seg"
proof (induction lengths arbitrary: seg best)
  case Nil
  then show ?case by simp
next
  case (Cons morph_length rest)
  obtain best_delta best_length where best: "best = (best_delta, best_length)"
    by (cases best)
  from Cons.prems obtain cost seg1 where
    cost: "morph_cost seg log_token_count bad_likelihood
             (substr word (end_index - morph_length) morph_length) morph_length
           = Inr (cost, seg1)"
    by (auto simp add: best split: sum.splits)
  from morph_cost_frame [OF cost] have seg1: "seg1 = seg" .
  from Cons.prems cost obtain best1 where
    "best_split seg log_token_count bad_likelihood word delta end_index rest best1
       = Inr (best', seg')"
    by (cases cost) (auto simp add: best seg1 Let_def split: if_splits)
  then show ?case
    by (rule Cons.IH)
qed

lemma viterbi_frame:
  "viterbi seg log_token_count bad_likelihood pseudo_infinite_cost word indices dp
     = Inr (dp', seg') \<Longrightarrow> seg' = seg"
proof (induction indices arbitrary: seg dp)
  case Nil
  then show ?case by simp
next
  case (Cons end_index rest)
  obtain delta psi where dp: "dp = (delta, psi)"
    by (cases dp)
  from Cons.prems obtain best_delta best_length seg1 where
    best: "best_split seg log_token_count bad_likelihood word delta end_index
             [1..<end_index + 1] (pseudo_infinite_cost, 0)
           = Inr ((best_delta, best_length), seg1)"
    by (auto simp add: dp split: sum.splits)
  from best_split_frame [OF best] have seg1: "seg1 = seg" .
  from Cons.prems best have
    "viterbi seg log_token_count bad_likelihood pseudo_infinite_cost word rest
       (delta[end_index := best_delta], psi[end_index := best_length]) = Inr (dp', seg')"
    by (auto simp add: dp seg1 split: if_splits)
  then show ?case
    by (rule Cons.IH)
qed

lemma segment_word_frame:
  "segment_word seg token_count word = Inr (str, seg') \<Longrightarrow> seg' = seg"
  by (auto simp add: segment_word_def Let_def dest: viterbi_frame
      split: if_splits sum.splits prod.splits)

lemma segment_all_frame:
  "segment_all seg token_count corpus = Inr (segs, seg') \<Longrightarrow> seg' = seg"
proof (induction corpus arbitrary: seg segs)
  case Nil
  then show ?case by simp
next
  case (Cons entry corpus)
  obtain word frequency where entry: "entry = (word, frequency)" by (cases entry)
  from Cons.prems entry obtain str seg1 rest where
    str: "segment_word seg token_count word = Inr (str, seg1)"
    and rest: "segment_all seg1 token_count corpus = Inr (rest, seg')"
    by (auto split: sum.splits prod.splits)
  from segment_word_frame [OF str] Cons.IH [OF rest] show ?case
    by simp
qed

text \<open>
  C10. A call of \<^verbatim>\<open>SegmentTestCorpus\<close> that returns leaves the segmentation (the store
  with every node, and the model with its totals) as it was, and a second call with the
  same test corpus returns the same list.
\<close>

theorem SegmentTestCorpus_read_only:
  assumes "SegmentTestCorpus test_corpus seg = Inr (segmentations, seg')"
  shows "seg' = seg \<and> SegmentTestCorpus test_corpus seg' = Inr (segmentations, seg')"
proof -
  from assms have run: "segment_all seg (model_total_morph_tokens (seg_model seg)) test_corpus
      = Inr (segmentations, seg')"
    by (simp add: SegmentTestCorpus_def Model_total_morph_tokens_def)
  from segment_all_frame [OF this] have "seg' = seg" .
  with assms show ?thesis
    by simp
qed

theorem SegmentTestCorpus_read_only_witness:
  "SegmentTestCorpus [(''a'', 2)] decoder_example = Inr ([''a ''], decoder_example)
   \<and> SegmentTestCorpus [(''a'', 2)]
         (snd (projr (SegmentTestCorpus [(''a'', 2)] decoder_example)))
       = SegmentTestCorpus [(''a'', 2)] decoder_example"
  using SegmentTestCorpus_read_only [OF SegmentTestCorpus_a] SegmentTestCorpus_a by simp

section \<open>The optimizer of \<^verbatim>\<open>morph_node.cc\<close>\<close>

text \<open>
  \<^verbatim>\<open>RemoveNode(node_to_remove, subtree_key)\<close>: the first argument is a reference to the
  node stored under the key that \<^verbatim>\<open>Remove\<close> or \<^verbatim>\<open>ResplitNode\<close> was called with, so its
  count is read from the store when it is used; the model passes that key. \<^verbatim>\<open>nodes_.at\<close>
  throws for a missing key. The subtraction is one of \<^verbatim>\<open>size_t\<close> values and wraps around.
\<close>

fun RemoveNode :: "nat \<Rightarrow> string \<Rightarrow> string \<Rightarrow> SegmentationTree \<Rightarrow> failure + SegmentationTree" where
  "RemoveNode 0 node_to_remove subtree_key t = Inl NoReturn"
| "RemoveNode (Suc fuel) node_to_remove subtree_key t =
     (case nodes t subtree_key of
        None \<Rightarrow> Inl OutOfRange
      | Some subtree \<Rightarrow>
          (case (if left_child subtree \<noteq> []
                 then RemoveNode fuel node_to_remove (left_child subtree) t else Inr t) of
             Inl e \<Rightarrow> Inl e
           | Inr t1 \<Rightarrow>
               (case (if right_child (node_at (nodes t1) subtree_key) \<noteq> []
                      then RemoveNode fuel node_to_remove
                             (right_child (node_at (nodes t1) subtree_key)) t1
                      else Inr t1) of
                  Inl e \<Rightarrow> Inl e
                | Inr t2 \<Rightarrow>
                    (let count_reduction = count (node_at (nodes t2) node_to_remove);
                         subtree2 = node_at (nodes t2) subtree_key;
                         subtree3 = subtree2\<lparr>count :=
                           (count subtree2 + 2 ^ 64 - count_reduction) mod 2 ^ 64\<rparr>;
                         t3 = t2\<lparr>nodes := (nodes t2)(subtree_key \<mapsto> subtree3),
                                total_morph_tokens :=
                                  (if \<not> has_children subtree3
                                   then total_morph_tokens t2 - int count_reduction
                                   else total_morph_tokens t2)\<rparr>
                     in Inr (if count subtree3 = 0
                             then t3\<lparr>nodes := (nodes t3)(subtree_key := None),
                                     unique_morph_types :=
                                       (if \<not> has_children subtree3
                                        then unique_morph_types t3 - 1
                                        else unique_morph_types t3)\<rparr>
                             else t3)))))"

text \<open>\<^verbatim>\<open>Remove\<close>, with the assertion that the morph is stored.\<close>

definition Remove :: "nat \<Rightarrow> string \<Rightarrow> SegmentationTree \<Rightarrow> failure + SegmentationTree" where
  "Remove fuel morph t =
     (case nodes t morph of
        None \<Rightarrow> Inl AssertionFailed
      | Some node \<Rightarrow> RemoveNode fuel morph morph t)"

text \<open>
  \<^verbatim>\<open>OverallCost\<close> is a sum of floating-point logarithms, binomial coefficients and Gamma
  densities. The optimizer only compares its values, so it enters the model as a
  parameter: any function from the letter table, the mode and the tree to the reals.
\<close>

type_synonym tree_cost = "cost_table \<Rightarrow> AlgorithmModes \<Rightarrow> SegmentationTree \<Rightarrow> real"

text \<open>
  The loop of \<^verbatim>\<open>ResplitNode\<close> over the split positions. Every round splits the saved
  unsplit tree \<open>t\<close>, since the source restores it after each trial.
\<close>

fun try_splits ::
  "nat \<Rightarrow> (SegmentationTree \<Rightarrow> real) \<Rightarrow> string \<Rightarrow> SegmentationTree \<Rightarrow> nat list \<Rightarrow> real \<times> nat
     \<Rightarrow> failure + (real \<times> nat)" where
  "try_splits fuel cost morph t [] best = Inr best"
| "try_splits fuel cost morph t (split_index # rest) (pr_model_given_corpus, best_split_index) =
     (case Split fuel morph split_index t of
        Inl e \<Rightarrow> Inl e
      | Inr t' \<Rightarrow>
          (let new_overall_cost = cost t'
           in try_splits fuel cost morph t rest
                (if new_overall_cost < pr_model_given_corpus
                 then (new_overall_cost, split_index)
                 else (pr_model_given_corpus, best_split_index))))"

text \<open>
  \<^verbatim>\<open>SegmentationTree::ResplitNode\<close>. The member \<^verbatim>\<open>pr_model_given_corpus_\<close> is written
  before it is read in every call, so it is a local value of the model. The cost of the
  unsplit tree is taken in mode \<^verbatim>\<open>kBaseline\<close>, that of the trials in the mode of the tree,
  as in the source.
\<close>

fun Tree_ResplitNode ::
  "nat \<Rightarrow> (AlgorithmModes \<Rightarrow> SegmentationTree \<Rightarrow> real) \<Rightarrow> AlgorithmModes \<Rightarrow> string
     \<Rightarrow> SegmentationTree \<Rightarrow> failure + SegmentationTree" where
  "Tree_ResplitNode 0 cost mode morph t = Inl NoReturn"
| "Tree_ResplitNode (Suc fuel) cost mode morph t =
     (if morph = [] then Inl AssertionFailed
      else case nodes t morph of
        None \<Rightarrow> Inl OutOfRange
      | Some node \<Rightarrow>
          (case RemoveNode (Suc fuel) morph morph t of
             Inl e \<Rightarrow> Inl e
           | Inr t1 \<Rightarrow>
               (let t2 = emplace morph (count node) t1
                in case try_splits (Suc fuel) (cost mode) morph t2 [1..<length morph]
                          (cost kBaseline t2, 0) of
                     Inl e \<Rightarrow> Inl e
                   | Inr (pr_model_given_corpus, best_split_index) \<Rightarrow>
                       if best_split_index > 0
                       then
                         (case Split (Suc fuel) morph best_split_index t2 of
                            Inl e \<Rightarrow> Inl e
                          | Inr t3 \<Rightarrow>
                              (case nodes t3 morph of
                                 None \<Rightarrow> Inl OutOfRange
                               | Some n3 \<Rightarrow>
                                   if left_child n3 = [] \<or> right_child n3 = []
                                   then Inl AssertionFailed
                                   else
                                     (case Tree_ResplitNode fuel cost mode
                                             (left_child n3) t3 of
                                        Inl e \<Rightarrow> Inl e
                                      | Inr t4 \<Rightarrow>
                                          (case nodes t4 morph of
                                             None \<Rightarrow> Inl OutOfRange
                                           | Some n4 \<Rightarrow>
                                               Tree_ResplitNode fuel cost mode
                                                 (right_child n4) t4))))
                       else Inr t2)))"

text \<open>\<^verbatim>\<open>for (const auto& key : keys) ResplitNode(key);\<close>\<close>

fun Tree_ResplitNodes ::
  "nat \<Rightarrow> (AlgorithmModes \<Rightarrow> SegmentationTree \<Rightarrow> real) \<Rightarrow> AlgorithmModes \<Rightarrow> string list
     \<Rightarrow> SegmentationTree \<Rightarrow> failure + SegmentationTree" where
  "Tree_ResplitNodes fuel cost mode [] t = Inr t"
| "Tree_ResplitNodes fuel cost mode (key # keys) t =
     (case Tree_ResplitNode fuel cost mode key t of
        Inl e \<Rightarrow> Inl e
      | Inr t' \<Rightarrow> Tree_ResplitNodes fuel cost mode keys t')"

text \<open>
  The \<^verbatim>\<open>do ... while\<close> loop of \<^verbatim>\<open>SegmentationTree::Optimize\<close>. The loop may run for any
  number of epochs; the first argument bounds them and \<open>NoReturn\<close> is the result when
  the bound is reached. \<open>shuffle\<close> stands for \<^verbatim>\<open>std::shuffle\<close> with the generator \<open>g\<close>.
\<close>

fun Tree_Optimize_loop ::
  "nat \<Rightarrow> nat \<Rightarrow> (AlgorithmModes \<Rightarrow> SegmentationTree \<Rightarrow> real) \<Rightarrow> AlgorithmModes \<Rightarrow> real
     \<Rightarrow> ('g \<Rightarrow> string list \<Rightarrow> string list \<times> 'g) \<Rightarrow> 'g \<Rightarrow> string list \<Rightarrow> real
     \<Rightarrow> SegmentationTree \<Rightarrow> failure + SegmentationTree" where
  "Tree_Optimize_loop 0 fuel cost mode convergence_threshold shuffle g keys new_cost t =
     Inl NoReturn"
| "Tree_Optimize_loop (Suc epochs) fuel cost mode convergence_threshold shuffle g keys
       new_cost t =
     (let shuffled = shuffle g keys;
          old_cost = new_cost
      in case Tree_ResplitNodes fuel cost mode (fst shuffled) t of
           Inl e \<Rightarrow> Inl e
         | Inr t' \<Rightarrow>
             if old_cost - cost mode t'
                  > convergence_threshold * real_of_int (unique_morph_types t')
             then Tree_Optimize_loop epochs fuel cost mode convergence_threshold
                    shuffle (snd shuffled) (fst shuffled) (cost mode t') t'
             else Inr t')"

text \<open>
  \<^verbatim>\<open>SegmentationTree::Optimize\<close>: the letter table is computed once, the keys are
  collected in the order \<open>keys\<close> of the map, and the loop starts from the current cost.
\<close>

definition Tree_Optimize ::
  "nat \<Rightarrow> nat \<Rightarrow> tree_cost \<Rightarrow> AlgorithmModes \<Rightarrow> real
     \<Rightarrow> ('g \<Rightarrow> string list \<Rightarrow> string list \<times> 'g) \<Rightarrow> 'g \<Rightarrow> string list
     \<Rightarrow> SegmentationTree \<Rightarrow> failure + SegmentationTree" where
  "Tree_Optimize epochs fuel OverallCost mode convergence_threshold shuffle g keys t =
     (case LetterProbabilities keys
             (mode = kBaseline \<or> mode = kBaselineFreq) t of
        Inl e \<Rightarrow> Inl e
      | Inr letter_tab \<Rightarrow>
          Tree_Optimize_loop epochs fuel (OverallCost letter_tab) mode
            convergence_threshold shuffle g keys
            (OverallCost letter_tab mode t) t)"




lemma mod_size_example: "((7::nat) + 2 ^ 64 - 7) mod 2 ^ 64 = 0"
  by simp



subsection \<open>The cost of a segmentation\<close>

text \<open>
  Modelled from the spec: \<^verbatim>\<open>Model::overall_cost\<close> and the cost terms it adds up are
  members of the class \<^verbatim>\<open>Model\<close>, whose code is not among the sources. The definitions
  follow the formulas of the specification, each evaluated over the leaves of the store
  (the specification allows full recomputation and requires the incrementally kept
  accumulators to agree with it); the token and type totals are the counters of the
  model. A letter without an entry in the table adds nothing. The terms are those that
  \<^verbatim>\<open>SegmentationTree::LexiconCost\<close> and \<^verbatim>\<open>OverallCost\<close> of \<^verbatim>\<open>morph_node.cc\<close> add up for
  the tree; the Gamma density of the explicit length cost is a parameter of the model.
\<close>

definition leaf_sum :: "store \<Rightarrow> (string \<Rightarrow> nat \<Rightarrow> real) \<Rightarrow> real" where
  "leaf_sum ns g = (\<Sum>k \<in> leaf_keys ns. g k (count (node_at ns k)))"

definition letter_cost :: "letter_table \<Rightarrow> char \<Rightarrow> real" where
  "letter_cost tab c = (case map_of tab c of None \<Rightarrow> 0 | Some v \<Rightarrow> v)"

definition corpus_cost :: "Segmentation \<Rightarrow> real" where
  "corpus_cost seg =
     leaf_sum (seg_nodes seg)
       (\<lambda>k c. real c * (log 2 (real_of_int (model_total_morph_tokens (seg_model seg)))
                         - log 2 (real c)))"

definition lexicon_order_cost :: "Segmentation \<Rightarrow> real" where
  "lexicon_order_cost seg =
     (let U = real_of_int (model_unique_morph_types (seg_model seg))
      in U * (1 - ln U) / ln 2)"

definition implicit_frequency_cost :: "Segmentation \<Rightarrow> real" where
  "implicit_frequency_cost seg =
     (let T = model_total_morph_tokens (seg_model seg);
          U = model_unique_morph_types (seg_model seg)
      in if T < 100 then log 2 (real (nat (T - 1) choose nat (U - 1)))
         else real_of_int (T - 1) * log 2 (real_of_int (T - 2))
              - real_of_int (U - 1) * log 2 (real_of_int (U - 2))
              - real_of_int (T - U) * log 2 (real_of_int (T - U - 1)))"

definition explicit_frequency_cost :: "Segmentation \<Rightarrow> real" where
  "explicit_frequency_cost seg =
     (let e = log 2 (1 - hapax_legomena_prior (seg_model seg))
      in leaf_sum (seg_nodes seg) (\<lambda>k c. - log 2 (real c powr e - (real c + 1) powr e)))"

definition implicit_length_cost :: "Segmentation \<Rightarrow> real" where
  "implicit_length_cost seg =
     leaf_sum (seg_nodes seg)
       (\<lambda>k c. letter_cost (model_letter_probabilities (seg_model seg)) CHR ''#'')"

definition explicit_length_cost_sum :: "Segmentation \<Rightarrow> real" where
  "explicit_length_cost_sum seg =
     leaf_sum (seg_nodes seg) (\<lambda>k c. explicit_length_cost (seg_model seg) (length k))"

definition morph_string_cost :: "Segmentation \<Rightarrow> real" where
  "morph_string_cost seg =
     leaf_sum (seg_nodes seg)
       (\<lambda>k c. \<Sum>ch \<leftarrow> k. letter_cost (model_letter_probabilities (seg_model seg)) ch)"

definition lexicon_cost :: "Segmentation \<Rightarrow> real" where
  "lexicon_cost seg =
     lexicon_order_cost seg
     + (case algorithm_mode (seg_model seg) of
          kBaseline \<Rightarrow> implicit_frequency_cost seg + implicit_length_cost seg
        | kBaselineFreq \<Rightarrow> explicit_frequency_cost seg + implicit_length_cost seg
        | kBaselineFreqLength \<Rightarrow> explicit_frequency_cost seg + explicit_length_cost_sum seg
        | kBaselineLength \<Rightarrow> implicit_frequency_cost seg + explicit_length_cost_sum seg)
     + morph_string_cost seg"

definition overall_cost :: "Segmentation \<Rightarrow> real" where
  "overall_cost seg = lexicon_cost seg + corpus_cost seg"

subsection \<open>Adjusting counts\<close>

text \<open>
  Modelled from the spec: the two hooks of the model that change its counters. The other
  hooks that \<^verbatim>\<open>AdjustMorphCount\<close> calls (\<^verbatim>\<open>adjust_corpus_cost\<close>,
  \<^verbatim>\<open>adjust_frequency_cost\<close>, \<^verbatim>\<open>adjust_length_cost\<close>, \<^verbatim>\<open>adjust_string_cost\<close>) maintain
  accumulators of the cost terms; with the costs recomputed from the leaves they have
  nothing to change.
\<close>

definition adjust_morph_token_count :: "int \<Rightarrow> Model \<Rightarrow> Model" where
  "adjust_morph_token_count delta m =
     m\<lparr>model_total_morph_tokens := model_total_morph_tokens m + delta\<rparr>"

definition adjust_unique_morph_count :: "int \<Rightarrow> Model \<Rightarrow> Model" where
  "adjust_unique_morph_count delta m =
     m\<lparr>model_unique_morph_types := model_unique_morph_types m + delta\<rparr>"

text \<open>
  \<^verbatim>\<open>AdjustMorphCount(std::string morph, int delta)\<close>, with its three assertions. The
  parameter \<open>delta\<close> is a 32-bit \<^verbatim>\<open>int\<close>, read by \<open>sint\<close>; the count of a node is a
  \<^verbatim>\<open>size_t\<close>, so \<^verbatim>\<open>subtree.count + delta\<close> is computed modulo \<open>2 ^ 64\<close>. The first
  assertion negates \<open>delta\<close>, which for the least \<^verbatim>\<open>int\<close> has no defined result.

  \<^verbatim>\<open>nodes_[morph]\<close> creates a node of count 0 for a new key, and the node is either erased
  or given its new count before the children are visited, so the inserted node is never
  observed with count 0. The recursion follows the stored child keys; the first argument
  bounds its depth.
\<close>

fun AdjustMorphCount :: "nat \<Rightarrow> string \<Rightarrow> 32 word \<Rightarrow> Segmentation \<Rightarrow> failure + Segmentation" where
  "AdjustMorphCount 0 morph delta seg = Inl NoReturn"
| "AdjustMorphCount (Suc fuel) morph delta seg =
     (if morph = [] then Inl AssertionFailed
      else
        (let subtree = node_at (seg_nodes seg) morph
         in if sint delta = - (2 ^ 31) then Inl SignedOverflow
            else if \<not> (sint delta \<ge> 0 \<or> - sint delta \<le> int (count subtree))
            then Inl AssertionFailed
            else
              (let old_count = count subtree;
                   new_count = nat ((int (count subtree) + sint delta) mod 2 ^ 64);
                   left_morph = left_child subtree;
                   right_morph = right_child subtree
               in if (left_morph = []) \<noteq> (right_morph = []) then Inl AssertionFailed
                  else
                    (let seg1 = seg\<lparr>seg_nodes :=
                           (if new_count = 0 then (seg_nodes seg)(morph := None)
                            else (seg_nodes seg)(morph \<mapsto> subtree\<lparr>count := new_count\<rparr>))\<rparr>
                     in if left_morph \<noteq> []
                        then (case AdjustMorphCount fuel left_morph delta seg1 of
                                Inl e \<Rightarrow> Inl e
                              | Inr seg2 \<Rightarrow> AdjustMorphCount fuel right_morph delta seg2)
                        else
                          Inr (seg1\<lparr>seg_model :=
                                 (let m1 = adjust_morph_token_count (sint delta) (seg_model seg1)
                                  in if old_count = 0 \<and> new_count > 0
                                     then adjust_unique_morph_count 1 m1
                                     else if new_count = 0 \<and> old_count > 0
                                     then adjust_unique_morph_count (- 1) m1
                                     else m1)\<rparr>)))))"

subsection \<open>Resplitting a node\<close>

text \<open>
  \<^verbatim>\<open>auto frequency = nodes_.at(morph).count\<close> is a \<^verbatim>\<open>size_t\<close>, and so is \<^verbatim>\<open>-frequency\<close>.
  Passing either of them for the \<^verbatim>\<open>int delta\<close> of \<^verbatim>\<open>AdjustMorphCount\<close> converts it to
  \<^verbatim>\<open>int\<close>, which keeps its low 32 bits.
\<close>

definition size_to_int :: "64 word \<Rightarrow> 32 word" where
  "size_to_int x = ucast x"

text \<open>
  The loop of \<^verbatim>\<open>Segmentation::ResplitNode\<close> over the split positions: both halves are
  added with the frequency of the morph, the cost is compared with the best cost so far,
  and the halves are taken out again.
\<close>

fun try_resplits ::
  "nat \<Rightarrow> string \<Rightarrow> 64 word \<Rightarrow> nat list \<Rightarrow> Segmentation \<times> real \<times> nat
     \<Rightarrow> failure + (Segmentation \<times> real \<times> nat)" where
  "try_resplits afuel morph frequency [] st = Inr st"
| "try_resplits afuel morph frequency (split_index # rest) (seg, best_cost, best_split_index) =
     (case AdjustMorphCount afuel (take split_index morph) (size_to_int frequency) seg of
        Inl e \<Rightarrow> Inl e
      | Inr seg1 \<Rightarrow>
          (case AdjustMorphCount afuel (drop split_index morph) (size_to_int frequency) seg1 of
             Inl e \<Rightarrow> Inl e
           | Inr seg2 \<Rightarrow>
               (case AdjustMorphCount afuel (take split_index morph)
                       (size_to_int (- frequency)) seg2 of
                  Inl e \<Rightarrow> Inl e
                | Inr seg3 \<Rightarrow>
                    (case AdjustMorphCount afuel (drop split_index morph)
                            (size_to_int (- frequency)) seg3 of
                       Inl e \<Rightarrow> Inl e
                     | Inr seg4 \<Rightarrow>
                         try_resplits afuel morph frequency rest
                           (if overall_cost seg2 < best_cost
                            then (seg4, overall_cost seg2, split_index)
                            else (seg4, best_cost, best_split_index))))))"

text \<open>
  \<^verbatim>\<open>ResplitNode\<close> up to its two recursive calls: the result is the segmentation after
  the chosen alternative has been put in place, and the chosen split position (0 for no
  split). \<^verbatim>\<open>nodes_.at(morph)\<close> throws when the morph is not stored.
\<close>

definition ResplitNode_choose :: "nat \<Rightarrow> string \<Rightarrow> Segmentation \<Rightarrow> failure + (Segmentation \<times> nat)" where
  "ResplitNode_choose afuel morph seg =
     (if morph = [] then Inl AssertionFailed
      else case seg_nodes seg morph of
        None \<Rightarrow> Inl OutOfRange
      | Some node \<Rightarrow>
          (let frequency = (word_of_nat (count node) :: 64 word)
           in case AdjustMorphCount afuel morph (size_to_int (- frequency)) seg of
                Inl e \<Rightarrow> Inl e
              | Inr seg1 \<Rightarrow>
                  (case AdjustMorphCount afuel morph (size_to_int frequency) seg1 of
                     Inl e \<Rightarrow> Inl e
                   | Inr seg2 \<Rightarrow>
                       (case AdjustMorphCount afuel morph (size_to_int (- frequency)) seg2 of
                          Inl e \<Rightarrow> Inl e
                        | Inr seg3 \<Rightarrow>
                            (case try_resplits afuel morph frequency [1..<length morph]
                                    (seg3, overall_cost seg2, 0) of
                               Inl e \<Rightarrow> Inl e
                             | Inr (seg4, best_cost, best_split_index) \<Rightarrow>
                                 if best_split_index > 0
                                 then
                                   (let parent = (node_at (seg_nodes seg4) morph)
                                          \<lparr>count := unat frequency,
                                           left_child := take best_split_index morph,
                                           right_child := drop best_split_index morph\<rparr>;
                                        seg5 = seg4\<lparr>seg_nodes := (seg_nodes seg4)(morph \<mapsto> parent)\<rparr>
                                    in case AdjustMorphCount afuel (left_child parent)
                                              (size_to_int frequency) seg5 of
                                         Inl e \<Rightarrow> Inl e
                                       | Inr seg6 \<Rightarrow>
                                           (case AdjustMorphCount afuel
                                                   (right_child (node_at (seg_nodes seg6) morph))
                                                   (size_to_int frequency)
                                                   (seg6\<lparr>seg_nodes := index_store (seg_nodes seg6) morph\<rparr>) of
                                              Inl e \<Rightarrow> Inl e
                                            | Inr seg7 \<Rightarrow> Inr (seg7, best_split_index)))
                                 else
                                   (case AdjustMorphCount afuel morph (size_to_int frequency) seg4 of
                                      Inl e \<Rightarrow> Inl e
                                    | Inr seg5 \<Rightarrow> Inr (seg5, 0)))))))"


text \<open>
  The conversion commutes with negation and maps a numeral to itself; a count below
  \<open>2 ^ 31\<close> and its negation arrive at \<^verbatim>\<open>AdjustMorphCount\<close> unchanged.
\<close>

lemma ucast_down_of_int: "(ucast (word_of_int k :: 64 word) :: 32 word) = word_of_int k"
  by (simp add: unsigned_of_int word_of_int_eq_iff min_def)

lemma size_to_int_of_int: "size_to_int (word_of_int k) = word_of_int k"
  unfolding size_to_int_def by (rule ucast_down_of_int)

lemma size_to_int_minus: "size_to_int (- x) = - size_to_int x"
proof -
  have "size_to_int (- word_of_int (uint x)) = - size_to_int (word_of_int (uint x))"
    using size_to_int_of_int [of "- uint x"] size_to_int_of_int [of "uint x"] by simp
  then show ?thesis by simp
qed

lemma size_to_int_simps [simp]:
  "size_to_int 0 = 0" "size_to_int 1 = 1" "size_to_int (numeral n) = numeral n"
  using size_to_int_of_int [of 0] size_to_int_of_int [of 1] size_to_int_of_int [of "numeral n"]
  by simp_all

lemma size_to_int_of_nat: "size_to_int (word_of_nat f) = word_of_nat f"
  using size_to_int_of_int [of "int f"] by simp




subsection \<open>A resplit that raises the cost\<close>











































subsection \<open>An epoch that raises the cost\<close>








































subsection \<open>The invariant of a segmentation\<close>










lemma has_children_new_node [simp]: "\<not> has_children (new_node c)"
  by (simp add: has_children_def new_node_def)




















text \<open>
  The parameters of the model, which \<^verbatim>\<open>AdjustMorphCount\<close> does not change.
\<close>

definition same_parameters :: "Segmentation \<Rightarrow> Segmentation \<Rightarrow> bool" where
  "same_parameters a b \<longleftrightarrow>
     algorithm_mode (seg_model a) = algorithm_mode (seg_model b)
     \<and> hapax_legomena_prior (seg_model a) = hapax_legomena_prior (seg_model b)
     \<and> model_letter_probabilities (seg_model a) = model_letter_probabilities (seg_model b)
     \<and> explicit_length_cost (seg_model a) = explicit_length_cost (seg_model b)"

lemma same_parameters_refl: "same_parameters a a"
  by (simp add: same_parameters_def)










subsection \<open>The nodes that a call visits\<close>















subsection \<open>The search restores the segmentation\<close>



subsection \<open>The alternative that ResplitNode chooses\<close>



























text \<open>
  The bound on the count is needed. A count of \<open>2 ^ 31\<close> reaches \<^verbatim>\<open>AdjustMorphCount\<close>
  as the least \<^verbatim>\<open>int\<close>, whose negation in the first assertion is not defined; of a count
  of \<open>2 ^ 32 + 5\<close>, only 5 arrives.
\<close>

lemma size_to_int_least: "sint (size_to_int (- word_of_nat (2 ^ 31))) = - (2 ^ 31)"
proof -
  have "size_to_int (- word_of_nat (2 ^ 31)) = (- (2 ^ 31) :: 32 word)"
    unfolding size_to_int_minus size_to_int_of_nat by simp
  moreover have "sint (- (2 ^ 31) :: 32 word) = - (2 ^ 31)"
    by simp
  ultimately show ?thesis by simp
qed

lemma ResplitNode_choose_least:
  assumes "morph \<noteq> []" and "seg_nodes seg morph = Some node" and "count node = 2 ^ 31"
  shows "ResplitNode_choose (Suc fuel) morph seg = Inl SignedOverflow"
  using assms size_to_int_least by (simp add: ResplitNode_choose_def Let_def)

lemma size_to_int_truncates: "sint (size_to_int (word_of_nat (2 ^ 32 + 5))) = 5"
  unfolding size_to_int_of_nat by simp






end
